theory Spec2Isabelle
  imports Complex_Main
begin

section \<open>Common values\<close>

text \<open>
  Python floats are modelled as exact reals: rounding, overflow, infinities and NaN are
  outside the model. A point is a pair \<open>(x, y)\<close>. The only exception the modelled code
  can raise on real inputs is a division by zero.
\<close>

type_synonym point = "real \<times> real"

datatype py_error = ZeroDivisionError

section \<open>src/core/controller.py: AimController\<close>

record AimController =
  kp :: real
  kd :: real
  alpha :: real
  dead_zone :: real
  max_speed :: real
  prev_error_x :: real
  prev_error_y :: real
  prev_output_x :: real
  prev_output_y :: real

text \<open>\<open>__init__\<close>: the five parameters are stored, the internal state starts at zero.\<close>

definition AimController_init :: "real \<Rightarrow> real \<Rightarrow> real \<Rightarrow> real \<Rightarrow> real \<Rightarrow> AimController" where
  "AimController_init kp0 kd0 alpha0 dead_zone0 max_speed0 =
     \<lparr>kp = kp0, kd = kd0, alpha = alpha0, dead_zone = dead_zone0, max_speed = max_speed0,
      prev_error_x = 0, prev_error_y = 0, prev_output_x = 0, prev_output_y = 0\<rparr>"

text \<open>The default arguments of \<open>__init__\<close>.\<close>

definition AimController_default :: AimController where
  "AimController_default = AimController_init 0.15 0.05 0.85 5.0 30.0"

text \<open>\<open>math.sqrt(x ** 2 + y ** 2)\<close>, used for the distance and for the speed.\<close>

definition magnitude :: "point \<Rightarrow> real" where
  "magnitude p = sqrt ((fst p)\<^sup>2 + (snd p)\<^sup>2)"

text \<open>Step 1 of \<open>compute\<close>: \<open>error = target - cursor\<close>, per axis.\<close>

definition error_of :: "point \<Rightarrow> point \<Rightarrow> point" where
  "error_of cursor_pos target_pos =
     (fst target_pos - fst cursor_pos, snd target_pos - snd cursor_pos)"

text \<open>
  Steps 3 and 4 of \<open>compute\<close>: the PD output and its blend with the previous output.
  Only evaluated by \<open>compute\<close> when \<open>dt \<noteq> 0\<close> (Python raises on \<open>/ dt\<close> otherwise).
\<close>

definition pd_output :: "AimController \<Rightarrow> point \<Rightarrow> real \<Rightarrow> point" where
  "pd_output c err dt =
     (let p_x = kp c * fst err;
          p_y = kp c * snd err;
          d_x = kd c * (fst err - prev_error_x c) / dt;
          d_y = kd c * (snd err - prev_error_y c) / dt
      in (p_x + d_x, p_y + d_y))"

definition smoothed :: "AimController \<Rightarrow> point \<Rightarrow> real \<Rightarrow> point" where
  "smoothed c err dt =
     (let out = pd_output c err dt
      in (alpha c * fst out + (1 - alpha c) * prev_output_x c,
          alpha c * snd out + (1 - alpha c) * prev_output_y c))"

text \<open>
  Step 5 of \<open>compute\<close> and the commit of the state: what \<open>compute\<close> does once
  the dead-zone check has failed. The result pairs what the call gives back (the
  movement vector, or the exception raised) with the controller as the call leaves it.
  Both divisions of the source are guarded the way Python guards them: \<open>/ dt\<close> and
  \<open>max_speed / speed\<close> raise \<open>ZeroDivisionError\<close> on a zero divisor, before any field
  has been assigned.
\<close>

definition pd_path :: "AimController \<Rightarrow> point \<Rightarrow> real \<Rightarrow> (py_error + point) \<times> AimController" where
  "pd_path c err dt =
     (if dt = 0 then (Inl ZeroDivisionError, c)
      else
        let s = smoothed c err dt;
            speed = magnitude s
        in if speed > max_speed c then
             if speed = 0 then (Inl ZeroDivisionError, c)
             else
               let scale = max_speed c / speed;
                   s' = (fst s * scale, snd s * scale)
               in (Inr s', c\<lparr>prev_error_x := fst err, prev_error_y := snd err,
                             prev_output_x := fst s', prev_output_y := snd s'\<rparr>)
           else
             (Inr s, c\<lparr>prev_error_x := fst err, prev_error_y := snd err,
                        prev_output_x := fst s, prev_output_y := snd s\<rparr>))"

text \<open>
  \<open>compute\<close>: the error, the dead-zone check (a strict \<open><\<close>; inside the dead zone
  only \<open>prev_error\<close> is assigned and \<open>(0.0, 0.0)\<close> is returned), then the PD path.
\<close>

definition compute :: "AimController \<Rightarrow> point \<Rightarrow> point \<Rightarrow> real \<Rightarrow> (py_error + point) \<times> AimController" where
  "compute c cursor_pos target_pos dt =
     (let err = error_of cursor_pos target_pos;
          distance = magnitude err
      in if distance < dead_zone c then
           (Inr (0, 0), c\<lparr>prev_error_x := fst err, prev_error_y := snd err\<rparr>)
         else pd_path c err dt)"

text \<open>\<open>reset\<close>: the four state fields go back to zero.\<close>

definition reset :: "AimController \<Rightarrow> AimController" where
  "reset c = c\<lparr>prev_error_x := 0, prev_error_y := 0, prev_output_x := 0, prev_output_y := 0\<rparr>"

text \<open>
  \<open>update_params\<close>: every argument is optional (\<open>None\<close> by default); a field is
  assigned exactly when its argument \<open>is not None\<close>.
\<close>

definition update_params ::
  "AimController \<Rightarrow> real option \<Rightarrow> real option \<Rightarrow> real option \<Rightarrow> real option \<Rightarrow> real option
     \<Rightarrow> AimController" where
  "update_params c kp' kd' alpha' dead_zone' max_speed' =
     (let c1 = (case kp' of None \<Rightarrow> c | Some v \<Rightarrow> c\<lparr>kp := v\<rparr>);
          c2 = (case kd' of None \<Rightarrow> c1 | Some v \<Rightarrow> c1\<lparr>kd := v\<rparr>);
          c3 = (case alpha' of None \<Rightarrow> c2 | Some v \<Rightarrow> c2\<lparr>alpha := v\<rparr>);
          c4 = (case dead_zone' of None \<Rightarrow> c3 | Some v \<Rightarrow> c3\<lparr>dead_zone := v\<rparr>);
          c5 = (case max_speed' of None \<Rightarrow> c4 | Some v \<Rightarrow> c4\<lparr>max_speed := v\<rparr>)
      in c5)"

section \<open>src/core/detector.py: Detection\<close>

record Detection =
  x1 :: real
  y1 :: real
  x2 :: real
  y2 :: real
  score :: real
  class_id :: int

text \<open>The constructor that \<open>@dataclass\<close> generates.\<close>

definition Detection_init :: "real \<Rightarrow> real \<Rightarrow> real \<Rightarrow> real \<Rightarrow> real \<Rightarrow> int \<Rightarrow> Detection" where
  "Detection_init a b c d s k = \<lparr>x1 = a, y1 = b, x2 = c, y2 = d, score = s, class_id = k\<rparr>"

definition center_x :: "Detection \<Rightarrow> real" where
  "center_x d = (x1 d + x2 d) / 2"

definition center_y :: "Detection \<Rightarrow> real" where
  "center_y d = (y1 d + y2 d) / 2"

section \<open>src/core/target_selector.py: TargetSelector\<close>

text \<open>
  \<open>SCREEN_CENTER\<close> is a class attribute that \<open>select\<close> reads through \<open>self\<close>; it is
  a field here, which no method assigns and which construction sets to \<open>(960, 540)\<close>.
\<close>

record TargetSelector =
  SCREEN_CENTER :: point
  candidates :: "Detection list"
  current_target :: "Detection option"

definition TargetSelector_init :: TargetSelector where
  "TargetSelector_init = \<lparr>SCREEN_CENTER = (960, 540), candidates = [], current_target = None\<rparr>"

text \<open>\<open>_point_in_box\<close>: the chained comparisons \<open>x1 <= x <= x2 and y1 <= y <= y2\<close>.\<close>

definition point_in_box :: "real \<Rightarrow> real \<Rightarrow> Detection \<Rightarrow> bool" where
  "point_in_box x y detection =
     (x1 detection \<le> x \<and> x \<le> x2 detection \<and> y1 detection \<le> y \<and> y \<le> y2 detection)"

text \<open>The distance that the loop of \<open>select\<close> computes for a detection.\<close>

definition center_distance :: "point \<Rightarrow> Detection \<Rightarrow> real" where
  "center_distance cursor_pos detection =
     sqrt ((center_x detection - fst cursor_pos)\<^sup>2 + (center_y detection - snd cursor_pos)\<^sup>2)"

text \<open>
  The variable \<open>min_distance\<close> starts at \<open>float('inf')\<close> and afterwards holds a
  distance; \<open>distance < min_distance\<close> is \<open>less_bound\<close>.
\<close>

datatype bound = Infinity | Finite real

fun less_bound :: "real \<Rightarrow> bound \<Rightarrow> bool" where
  "less_bound distance Infinity = True"
| "less_bound distance (Finite m) = (distance < m)"

text \<open>
  The \<open>for\<close> loop of \<open>select\<close>, on the pair \<open>(min_distance, nearest_target)\<close>.
\<close>

fun nearest_loop :: "point \<Rightarrow> Detection list \<Rightarrow> bound \<times> Detection option
    \<Rightarrow> bound \<times> Detection option" where
  "nearest_loop cursor_pos [] st = st"
| "nearest_loop cursor_pos (detection # rest) (min_distance, nearest_target) =
     (let distance = center_distance cursor_pos detection
      in if less_bound distance min_distance
         then nearest_loop cursor_pos rest (Finite distance, Some detection)
         else nearest_loop cursor_pos rest (min_distance, nearest_target))"

text \<open>
  \<open>select\<close> returns the chosen detection (\<open>None\<close> for no target) and the selector as
  the call leaves it.
\<close>

definition select :: "TargetSelector \<Rightarrow> Detection list \<Rightarrow> point
    \<Rightarrow> Detection option \<times> TargetSelector" where
  "select sel detections cursor_pos =
     (if detections = [] then (None, sel\<lparr>candidates := [], current_target := None\<rparr>)
      else
        let screen_cx = fst (SCREEN_CENTER sel);
            screen_cy = snd (SCREEN_CENTER sel);
            filtered_detections =
              filter (\<lambda>det. \<not> point_in_box screen_cx screen_cy det) detections;
            sel1 = sel\<lparr>candidates := filtered_detections\<rparr>
        in if filtered_detections = [] then (None, sel1\<lparr>current_target := None\<rparr>)
           else
             let nearest_target =
                   snd (nearest_loop cursor_pos filtered_detections (Infinity, None))
             in (nearest_target, sel1\<lparr>current_target := nearest_target\<rparr>))"

definition get_candidates :: "TargetSelector \<Rightarrow> Detection list" where
  "get_candidates sel = candidates sel"

definition get_current_target :: "TargetSelector \<Rightarrow> Detection option" where
  "get_current_target sel = current_target sel"

section \<open>src/utils/coordinate.py\<close>

text \<open>
  Sizes are pairs of Python ints, \<open>/\<close> is true division and raises on a zero divisor;
  \<open>scale_x\<close> is computed before \<open>scale_y\<close>. The default arguments of the two mapping
  functions are \<open>default_model_size\<close> and \<open>default_screen_size\<close>.
\<close>

definition scale_coordinates :: "real \<Rightarrow> real \<Rightarrow> int \<times> int \<Rightarrow> int \<times> int \<Rightarrow> py_error + point" where
  "scale_coordinates x y from_size to_size =
     (if fst from_size = 0 then Inl ZeroDivisionError
      else
        let scale_x = real_of_int (fst to_size) / real_of_int (fst from_size)
        in if snd from_size = 0 then Inl ZeroDivisionError
           else
             let scale_y = real_of_int (snd to_size) / real_of_int (snd from_size)
             in Inr (x * scale_x, y * scale_y))"

definition map_to_screen :: "real \<Rightarrow> real \<Rightarrow> int \<times> int \<Rightarrow> int \<times> int \<Rightarrow> py_error + point" where
  "map_to_screen x y model_size screen_size = scale_coordinates x y model_size screen_size"

definition map_to_model :: "real \<Rightarrow> real \<Rightarrow> int \<times> int \<Rightarrow> int \<times> int \<Rightarrow> py_error + point" where
  "map_to_model x y screen_size model_size = scale_coordinates x y screen_size model_size"

definition default_model_size :: "int \<times> int" where
  "default_model_size = (640, 360)"

definition default_screen_size :: "int \<times> int" where
  "default_screen_size = (1920, 1080)"

section \<open>The choice made by the selection loop\<close>

text \<open>
  What the loop leaves in \<open>nearest_target\<close> when it starts from the target \<open>a\<close>
  at its own distance and runs over \<open>xs\<close>: either \<open>a\<close> itself, no element of
  \<open>xs\<close> being strictly nearer, or an element of \<open>xs\<close> strictly nearer than \<open>a\<close>
  and than everything before it, and at least as near as everything after it.
\<close>

definition loop_choice :: "point \<Rightarrow> Detection \<Rightarrow> Detection list \<Rightarrow> Detection \<Rightarrow> bool" where
  "loop_choice cur a xs r \<longleftrightarrow>
     (r = a \<and> (\<forall>x\<in>set xs. center_distance cur a \<le> center_distance cur x))
     \<or> (\<exists>pre post. xs = pre @ r # post
           \<and> center_distance cur r < center_distance cur a
           \<and> (\<forall>x\<in>set pre. center_distance cur r < center_distance cur x)
           \<and> (\<forall>x\<in>set post. center_distance cur r \<le> center_distance cur x))"

section \<open>Properties of the controller\<close>

subsection \<open>Magnitudes\<close>

lemma magnitude_eqI:
  assumes "0 \<le> r" and "(fst p)\<^sup>2 + (snd p)\<^sup>2 = r\<^sup>2"
  shows "magnitude p = r"
  using assms by (simp add: magnitude_def)

lemma magnitude_scale: "magnitude (fst p * k, snd p * k) = \<bar>k\<bar> * magnitude p"
proof -
  have "(fst p * k)\<^sup>2 + (snd p * k)\<^sup>2 = k\<^sup>2 * ((fst p)\<^sup>2 + (snd p)\<^sup>2)"
    by (simp add: power_mult_distrib algebra_simps)
  then show ?thesis
    by (simp add: magnitude_def real_sqrt_mult)
qed

lemma magnitude_clamped:
  assumes "0 \<le> m" and "m < magnitude p"
  shows "magnitude (fst p * (m / magnitude p), snd p * (m / magnitude p)) = m"
proof -
  have pos: "0 < magnitude p"
    using assms by linarith
  have "\<bar>m / magnitude p\<bar> = m / magnitude p"
    using assms pos by simp
  then have "magnitude (fst p * (m / magnitude p), snd p * (m / magnitude p))
      = m / magnitude p * magnitude p"
    by (simp only: magnitude_scale)
  also have "\<dots> = m"
    using pos by simp
  finally show ?thesis .
qed

lemma magnitude_3_4: "magnitude (3, 4) = 5"
  by (rule magnitude_eqI) simp_all

lemma magnitude_051_068: "magnitude (51 / 100, 17 / 25) = 17 / 20"
  by (rule magnitude_eqI) (simp_all add: power2_eq_square)

subsection \<open>The PD path\<close>

lemma pd_path_returns:
  assumes "0 \<le> max_speed c" and "dt \<noteq> 0"
  shows "\<exists>v. fst (pd_path c err dt) = Inr v"
  using assms by (auto simp: pd_path_def Let_def)

lemma pd_path_bound:
  assumes "0 \<le> max_speed c" and "fst (pd_path c err dt) = Inr v"
  shows "magnitude v \<le> max_speed c"
  using assms magnitude_clamped [of "max_speed c" "smoothed c err dt"]
  by (auto simp: pd_path_def Let_def split: if_splits)

lemma pd_path_clamped:
  assumes "0 \<le> max_speed c" and "dt \<noteq> 0"
    and "max_speed c < magnitude (smoothed c err dt)"
  shows "pd_path c err dt =
    (Inr (fst (smoothed c err dt) * (max_speed c / magnitude (smoothed c err dt)),
          snd (smoothed c err dt) * (max_speed c / magnitude (smoothed c err dt))),
     c\<lparr>prev_error_x := fst err, prev_error_y := snd err,
       prev_output_x := fst (smoothed c err dt) * (max_speed c / magnitude (smoothed c err dt)),
       prev_output_y := snd (smoothed c err dt) * (max_speed c / magnitude (smoothed c err dt))\<rparr>)"
  using assms by (auto simp: pd_path_def Let_def)

subsection \<open>The claims about the controller\<close>

text \<open>
  C3. For cursor \<open>(cx, cy)\<close> and target \<open>(tx, ty)\<close>: whenever the Euclidean distance
  \<open>sqrt ((tx - cx)\<^sup>2 + (ty - cy)\<^sup>2)\<close> is strictly below \<open>dead_zone\<close>, \<open>compute\<close> returns
  exactly \<open>(0, 0)\<close>, stores the fresh error \<open>(tx - cx, ty - cy)\<close> in \<open>prev_error\<close> and
  leaves \<open>prev_output\<close> (and everything else) as it was, for any \<open>dt\<close>. The comparison
  is strict: when the distance equals \<open>dead_zone\<close> the call is the PD path on that
  error, and when the smoothed PD vector needs no clamping the call returns it and
  stores it in \<open>prev_output\<close>. For cursor \<open>(0, 0)\<close>, target \<open>(3, 4)\<close> and
  \<open>dead_zone = 5\<close> the distance is 5 and the PD path runs.
\<close>

theorem compute_dead_zone:
  "(sqrt ((tx - cx)\<^sup>2 + (ty - cy)\<^sup>2) < dead_zone c \<longrightarrow>
      compute c (cx, cy) (tx, ty) dt =
        (Inr (0, 0), c\<lparr>prev_error_x := tx - cx, prev_error_y := ty - cy\<rparr>)
      \<and> prev_output_x (snd (compute c (cx, cy) (tx, ty) dt)) = prev_output_x c
      \<and> prev_output_y (snd (compute c (cx, cy) (tx, ty) dt)) = prev_output_y c)
   \<and> (sqrt ((tx - cx)\<^sup>2 + (ty - cy)\<^sup>2) = dead_zone c \<longrightarrow>
      compute c (cx, cy) (tx, ty) dt = pd_path c (tx - cx, ty - cy) dt)
   \<and> (sqrt ((tx - cx)\<^sup>2 + (ty - cy)\<^sup>2) = dead_zone c \<and> dt \<noteq> 0
       \<and> sqrt ((alpha c * (kp c * (tx - cx) + kd c * ((tx - cx) - prev_error_x c) / dt)
                   + (1 - alpha c) * prev_output_x c)\<^sup>2
               + (alpha c * (kp c * (ty - cy) + kd c * ((ty - cy) - prev_error_y c) / dt)
                   + (1 - alpha c) * prev_output_y c)\<^sup>2) \<le> max_speed c \<longrightarrow>
      compute c (cx, cy) (tx, ty) dt =
        (Inr (alpha c * (kp c * (tx - cx) + kd c * ((tx - cx) - prev_error_x c) / dt)
                + (1 - alpha c) * prev_output_x c,
              alpha c * (kp c * (ty - cy) + kd c * ((ty - cy) - prev_error_y c) / dt)
                + (1 - alpha c) * prev_output_y c),
         c\<lparr>prev_error_x := tx - cx, prev_error_y := ty - cy,
           prev_output_x := alpha c * (kp c * (tx - cx) + kd c * ((tx - cx) - prev_error_x c) / dt)
                + (1 - alpha c) * prev_output_x c,
           prev_output_y := alpha c * (kp c * (ty - cy) + kd c * ((ty - cy) - prev_error_y c) / dt)
                + (1 - alpha c) * prev_output_y c\<rparr>))
   \<and> (dead_zone c = 5 \<longrightarrow>
      sqrt ((3 - 0)\<^sup>2 + (4 - 0)\<^sup>2) = (5 :: real)
      \<and> compute c (0, 0) (3, 4) dt = pd_path c (3, 4) dt)"
proof (intro conjI impI)
  assume "sqrt ((tx - cx)\<^sup>2 + (ty - cy)\<^sup>2) < dead_zone c"
  then show "compute c (cx, cy) (tx, ty) dt =
        (Inr (0, 0), c\<lparr>prev_error_x := tx - cx, prev_error_y := ty - cy\<rparr>)"
    and "prev_output_x (snd (compute c (cx, cy) (tx, ty) dt)) = prev_output_x c"
    and "prev_output_y (snd (compute c (cx, cy) (tx, ty) dt)) = prev_output_y c"
    by (simp_all add: compute_def Let_def error_of_def magnitude_def)
next
  assume "sqrt ((tx - cx)\<^sup>2 + (ty - cy)\<^sup>2) = dead_zone c"
  then show "compute c (cx, cy) (tx, ty) dt = pd_path c (tx - cx, ty - cy) dt"
    by (simp add: compute_def Let_def error_of_def magnitude_def)
next
  assume h: "sqrt ((tx - cx)\<^sup>2 + (ty - cy)\<^sup>2) = dead_zone c \<and> dt \<noteq> 0
       \<and> sqrt ((alpha c * (kp c * (tx - cx) + kd c * ((tx - cx) - prev_error_x c) / dt)
                   + (1 - alpha c) * prev_output_x c)\<^sup>2
               + (alpha c * (kp c * (ty - cy) + kd c * ((ty - cy) - prev_error_y c) / dt)
                   + (1 - alpha c) * prev_output_y c)\<^sup>2) \<le> max_speed c"
  then have "compute c (cx, cy) (tx, ty) dt = pd_path c (tx - cx, ty - cy) dt"
    by (simp add: compute_def Let_def error_of_def magnitude_def)
  with h show "compute c (cx, cy) (tx, ty) dt =
        (Inr (alpha c * (kp c * (tx - cx) + kd c * ((tx - cx) - prev_error_x c) / dt)
                + (1 - alpha c) * prev_output_x c,
              alpha c * (kp c * (ty - cy) + kd c * ((ty - cy) - prev_error_y c) / dt)
                + (1 - alpha c) * prev_output_y c),
         c\<lparr>prev_error_x := tx - cx, prev_error_y := ty - cy,
           prev_output_x := alpha c * (kp c * (tx - cx) + kd c * ((tx - cx) - prev_error_x c) / dt)
                + (1 - alpha c) * prev_output_x c,
           prev_output_y := alpha c * (kp c * (ty - cy) + kd c * ((ty - cy) - prev_error_y c) / dt)
                + (1 - alpha c) * prev_output_y c\<rparr>)"
    by (simp add: pd_path_def smoothed_def pd_output_def magnitude_def Let_def)
next
  show "sqrt ((3 - 0)\<^sup>2 + (4 - 0)\<^sup>2) = (5 :: real)"
    by simp
next
  assume "dead_zone c = 5"
  then show "compute c (0, 0) (3, 4) dt = pd_path c (3, 4) dt"
    by (simp add: compute_def Let_def error_of_def magnitude_3_4)
qed

text \<open>
  On the default controller: with the cursor at \<open>(1000, 7)\<close> a target at distance 1 is
  inside the dead zone; with the cursor at \<open>(10, 20)\<close> the target \<open>(13, 24)\<close> at
  distance exactly 5 is not, and the PD path moves by \<open>(0.51, 0.68)\<close>.
\<close>

theorem compute_dead_zone_witness:
  "sqrt ((1001 - 1000)\<^sup>2 + (7 - 7)\<^sup>2) < dead_zone AimController_default
   \<and> compute AimController_default (1000, 7) (1001, 7) 1 =
       (Inr (0, 0), AimController_default\<lparr>prev_error_x := 1, prev_error_y := 0\<rparr>)
   \<and> sqrt ((13 - 10)\<^sup>2 + (24 - 20)\<^sup>2) = dead_zone AimController_default
   \<and> compute AimController_default (10, 20) (13, 24) 1 =
       (Inr (51 / 100, 17 / 25),
        AimController_default\<lparr>prev_error_x := 3, prev_error_y := 4,
          prev_output_x := 51 / 100, prev_output_y := 17 / 25\<rparr>)"
proof -
  have inside: "sqrt ((1001 - 1000)\<^sup>2 + (7 - 7)\<^sup>2) < dead_zone AimController_default"
    by (simp add: AimController_default_def AimController_init_def)
  have edge: "sqrt ((13 - 10)\<^sup>2 + (24 - 20)\<^sup>2) = dead_zone AimController_default"
    by (simp add: AimController_default_def AimController_init_def)
  have pd: "pd_path AimController_default (13 - 10, 24 - 20) 1 =
       (Inr (51 / 100, 17 / 25),
        AimController_default\<lparr>prev_error_x := 3, prev_error_y := 4,
          prev_output_x := 51 / 100, prev_output_y := 17 / 25\<rparr>)"
    by (simp add: pd_path_def smoothed_def pd_output_def Let_def
        AimController_default_def AimController_init_def magnitude_051_068)
  have one: "compute AimController_default (1000, 7) (1001, 7) 1 =
       (Inr (0, 0), AimController_default\<lparr>prev_error_x := 1, prev_error_y := 0\<rparr>)"
    using inside compute_dead_zone [of 1001 1000 7 7 AimController_default 1]
    by simp
  have two: "compute AimController_default (10, 20) (13, 24) 1 =
       (Inr (51 / 100, 17 / 25),
        AimController_default\<lparr>prev_error_x := 3, prev_error_y := 4,
          prev_output_x := 51 / 100, prev_output_y := 17 / 25\<rparr>)"
    using edge pd compute_dead_zone [of 13 10 24 20 AimController_default 1]
    by simp
  from inside one edge two show ?thesis
    by (intro conjI)
qed

text \<open>
  C4. With \<open>max_speed \<ge> 0\<close>, from any internal state and on any input: \<open>compute\<close>
  returns a vector whenever \<open>dt \<noteq> 0\<close>, and every vector it returns has magnitude at
  most \<open>max_speed\<close>. When the dead-zone check fails and the magnitude of the smoothed
  vector exceeds \<open>max_speed\<close>, the returned vector is the smoothed vector scaled by the
  non-negative factor \<open>max_speed / speed\<close> (same direction), its magnitude is exactly
  \<open>max_speed\<close>, and it is the value stored in \<open>prev_output\<close>.
\<close>

theorem compute_clamp:
  assumes "0 \<le> max_speed c"
  shows "(dt \<noteq> 0 \<longrightarrow> (\<exists>v. fst (compute c cursor_pos target_pos dt) = Inr v))
    \<and> (\<forall>v. fst (compute c cursor_pos target_pos dt) = Inr v \<longrightarrow> magnitude v \<le> max_speed c)
    \<and> (\<not> magnitude (error_of cursor_pos target_pos) < dead_zone c \<and> dt \<noteq> 0
        \<and> max_speed c < magnitude (smoothed c (error_of cursor_pos target_pos) dt) \<longrightarrow>
        (let s = smoothed c (error_of cursor_pos target_pos) dt;
             k = max_speed c / magnitude s
         in 0 \<le> k \<and> (0 < max_speed c \<longrightarrow> 0 < k)
            \<and> fst (compute c cursor_pos target_pos dt) = Inr (fst s * k, snd s * k)
            \<and> magnitude (fst s * k, snd s * k) = max_speed c
            \<and> prev_output_x (snd (compute c cursor_pos target_pos dt)) = fst s * k
            \<and> prev_output_y (snd (compute c cursor_pos target_pos dt)) = snd s * k))"
proof (intro conjI impI allI)
  assume "dt \<noteq> 0"
  then show "\<exists>v. fst (compute c cursor_pos target_pos dt) = Inr v"
    using assms pd_path_returns [of c dt "error_of cursor_pos target_pos"]
    by (simp add: compute_def Let_def)
next
  fix v
  assume "fst (compute c cursor_pos target_pos dt) = Inr v"
  then show "magnitude v \<le> max_speed c"
    using assms pd_path_bound [of c "error_of cursor_pos target_pos" dt v]
    by (auto simp: compute_def Let_def magnitude_def split: if_splits)
next
  let ?s = "smoothed c (error_of cursor_pos target_pos) dt"
  assume h: "\<not> magnitude (error_of cursor_pos target_pos) < dead_zone c \<and> dt \<noteq> 0
        \<and> max_speed c < magnitude ?s"
  then have pos: "0 < magnitude ?s"
    using assms by linarith
  have eq: "compute c cursor_pos target_pos dt = pd_path c (error_of cursor_pos target_pos) dt"
    using h by (simp add: compute_def Let_def)
  have cl: "magnitude (fst ?s * (max_speed c / magnitude ?s), snd ?s * (max_speed c / magnitude ?s))
      = max_speed c"
    using assms h by (simp only: magnitude_clamped)
  show "let s = ?s; k = max_speed c / magnitude s
         in 0 \<le> k \<and> (0 < max_speed c \<longrightarrow> 0 < k)
            \<and> fst (compute c cursor_pos target_pos dt) = Inr (fst s * k, snd s * k)
            \<and> magnitude (fst s * k, snd s * k) = max_speed c
            \<and> prev_output_x (snd (compute c cursor_pos target_pos dt)) = fst s * k
            \<and> prev_output_y (snd (compute c cursor_pos target_pos dt)) = snd s * k"
    unfolding Let_def eq pd_path_clamped [OF assms conjunct1 [OF conjunct2 [OF h]] conjunct2 [OF conjunct2 [OF h]]]
    using assms pos cl by simp
qed

text \<open>
  On the default controller with the target 1000 pixels away, the smoothed vector
  \<open>(170, 0)\<close> is clamped to \<open>(30, 0)\<close>, which is what \<open>prev_output\<close> then holds.
\<close>

theorem compute_clamp_witness:
  "0 \<le> max_speed AimController_default
   \<and> max_speed AimController_default
       < magnitude (smoothed AimController_default (error_of (0, 0) (1000, 0)) 1)
   \<and> fst (compute AimController_default (0, 0) (1000, 0) 1) = Inr (30, 0)
   \<and> magnitude (30, 0) \<le> max_speed AimController_default
   \<and> prev_output_x (snd (compute AimController_default (0, 0) (1000, 0) 1)) = 30
   \<and> prev_output_y (snd (compute AimController_default (0, 0) (1000, 0) 1)) = 0"
proof -
  have ms: "0 \<le> max_speed AimController_default"
    by (simp add: AimController_default_def AimController_init_def)
  have sm: "smoothed AimController_default (error_of (0, 0) (1000, 0)) 1 = (170, 0)"
    by (simp add: smoothed_def pd_output_def error_of_def Let_def
        AimController_default_def AimController_init_def)
  have far: "\<not> magnitude (error_of (0, 0) (1000, 0)) < dead_zone AimController_default"
    by (simp add: error_of_def magnitude_def AimController_default_def AimController_init_def)
  have over: "max_speed AimController_default
       < magnitude (smoothed AimController_default (error_of (0, 0) (1000, 0)) 1)"
    unfolding sm by (simp add: magnitude_def AimController_default_def AimController_init_def)
  have m170: "magnitude (170, 0) = 170"
    by (simp add: magnitude_def)
  show ?thesis
    using ms far over compute_clamp [OF ms, of 1 "(0, 0)" "(1000, 0)"]
    unfolding sm Let_def
    by (simp add: m170 magnitude_def AimController_default_def AimController_init_def)
qed

text \<open>
  C5. A fresh controller with \<open>kp = 0.15\<close>, \<open>kd = 0.05\<close>, \<open>alpha = 0.85\<close>,
  \<open>dead_zone = 5\<close>, \<open>max_speed = 30\<close>: \<open>compute((0,0), (100,0), 1)\<close> returns
  \<open>(17, 0)\<close>; the same call again on the controller it leaves returns \<open>(15.3, 0)\<close>,
  the PD output being then \<open>(15, 0)\<close> (no derivative term) and
  \<open>15.3 = 0.85 * 15 + 0.15 * 17\<close>.
\<close>

theorem compute_example:
  "fst (compute (AimController_init 0.15 0.05 0.85 5 30) (0, 0) (100, 0) 1) = Inr (17.0, 0.0)
   \<and> fst (compute (snd (compute (AimController_init 0.15 0.05 0.85 5 30) (0, 0) (100, 0) 1))
          (0, 0) (100, 0) 1) = Inr (15.3, 0.0)
   \<and> pd_output (snd (compute (AimController_init 0.15 0.05 0.85 5 30) (0, 0) (100, 0) 1))
          (error_of (0, 0) (100, 0)) 1 = (15, 0)
   \<and> (15.3 :: real) = 0.85 * 15 + 0.15 * 17"
  by (simp add: compute_def pd_path_def smoothed_def pd_output_def error_of_def Let_def
      AimController_init_def magnitude_def)

text \<open>
  C7. \<open>reset\<close> zeroes \<open>prev_error\<close> and \<open>prev_output\<close>; from any controller,
  \<open>reset\<close> followed by \<open>compute\<close> gives the same result (output and controller left
  behind) as \<open>compute\<close> on a freshly constructed controller with the same five
  parameters, on the same inputs.
\<close>

theorem reset_then_compute:
  "prev_error_x (reset c) = 0 \<and> prev_error_y (reset c) = 0
   \<and> prev_output_x (reset c) = 0 \<and> prev_output_y (reset c) = 0
   \<and> compute (reset c) cursor_pos target_pos dt =
       compute (AimController_init (kp c) (kd c) (alpha c) (dead_zone c) (max_speed c))
         cursor_pos target_pos dt"
proof -
  have "reset c = AimController_init (kp c) (kd c) (alpha c) (dead_zone c) (max_speed c)"
    by (simp add: reset_def AimController_init_def)
  then show ?thesis
    by (simp add: AimController_init_def)
qed

text \<open>
  C8. \<open>update_params\<close> sets each supplied parameter to the supplied value, keeps each
  parameter that is not supplied, and touches nothing else. No value is rejected: an
  \<open>alpha\<close> of 2 and a \<open>max_speed\<close> of \<open>-1\<close> are stored as given.
\<close>

theorem update_params_frame:
  "kp (update_params c kp' kd' alpha' dead_zone' max_speed')
      = (case kp' of None \<Rightarrow> kp c | Some v \<Rightarrow> v)
   \<and> kd (update_params c kp' kd' alpha' dead_zone' max_speed')
      = (case kd' of None \<Rightarrow> kd c | Some v \<Rightarrow> v)
   \<and> alpha (update_params c kp' kd' alpha' dead_zone' max_speed')
      = (case alpha' of None \<Rightarrow> alpha c | Some v \<Rightarrow> v)
   \<and> dead_zone (update_params c kp' kd' alpha' dead_zone' max_speed')
      = (case dead_zone' of None \<Rightarrow> dead_zone c | Some v \<Rightarrow> v)
   \<and> max_speed (update_params c kp' kd' alpha' dead_zone' max_speed')
      = (case max_speed' of None \<Rightarrow> max_speed c | Some v \<Rightarrow> v)
   \<and> prev_error_x (update_params c kp' kd' alpha' dead_zone' max_speed') = prev_error_x c
   \<and> prev_error_y (update_params c kp' kd' alpha' dead_zone' max_speed') = prev_error_y c
   \<and> prev_output_x (update_params c kp' kd' alpha' dead_zone' max_speed') = prev_output_x c
   \<and> prev_output_y (update_params c kp' kd' alpha' dead_zone' max_speed') = prev_output_y c
   \<and> update_params c None None (Some 2) None (Some (- 1)) = c\<lparr>alpha := 2, max_speed := - 1\<rparr>"
  by (simp add: update_params_def split: option.splits)

text \<open>
  C10. \<open>compute\<close> never modifies \<open>kp\<close>, \<open>kd\<close>, \<open>alpha\<close>, \<open>dead_zone\<close> and
  \<open>max_speed\<close>, whatever the inputs and the starting state, also when it raises: putting
  the old values of the four state fields back into the controller it leaves gives the
  controller it started from, so those four fields are the only ones it may change.
\<close>

theorem compute_frame:
  "kp (snd (compute c cursor_pos target_pos dt)) = kp c
   \<and> kd (snd (compute c cursor_pos target_pos dt)) = kd c
   \<and> alpha (snd (compute c cursor_pos target_pos dt)) = alpha c
   \<and> dead_zone (snd (compute c cursor_pos target_pos dt)) = dead_zone c
   \<and> max_speed (snd (compute c cursor_pos target_pos dt)) = max_speed c
   \<and> (snd (compute c cursor_pos target_pos dt))
        \<lparr>prev_error_x := prev_error_x c, prev_error_y := prev_error_y c,
         prev_output_x := prev_output_x c, prev_output_y := prev_output_y c\<rparr> = c"
  by (simp add: compute_def pd_path_def Let_def)

section \<open>Properties of the selector\<close>

subsection \<open>The loop\<close>

lemma loop_choice_Nil: "loop_choice cur a [] a"
  by (simp add: loop_choice_def)

lemma loop_choice_keep:
  assumes "\<not> center_distance cur x < center_distance cur a"
    and "loop_choice cur a xs r"
  shows "loop_choice cur a (x # xs) r"
proof -
  from assms(2) consider
      (same) "r = a" "\<forall>y\<in>set xs. center_distance cur a \<le> center_distance cur y"
    | (later) pre post where "xs = pre @ r # post"
        "center_distance cur r < center_distance cur a"
        "\<forall>y\<in>set pre. center_distance cur r < center_distance cur y"
        "\<forall>y\<in>set post. center_distance cur r \<le> center_distance cur y"
    unfolding loop_choice_def by blast
  then show ?thesis
  proof cases
    case same
    with assms(1) show ?thesis
      by (simp add: loop_choice_def)
  next
    case later
    with assms(1) have "x # xs = (x # pre) @ r # post"
      "\<forall>y\<in>set (x # pre). center_distance cur r < center_distance cur y"
      by simp_all
    with later(2,4) show ?thesis
      unfolding loop_choice_def by blast
  qed
qed

lemma loop_choice_replace:
  assumes "center_distance cur x < center_distance cur a"
    and "loop_choice cur x xs r"
  shows "loop_choice cur a (x # xs) r"
proof -
  from assms(2) consider
      (same) "r = x" "\<forall>y\<in>set xs. center_distance cur x \<le> center_distance cur y"
    | (later) pre post where "xs = pre @ r # post"
        "center_distance cur r < center_distance cur x"
        "\<forall>y\<in>set pre. center_distance cur r < center_distance cur y"
        "\<forall>y\<in>set post. center_distance cur r \<le> center_distance cur y"
    unfolding loop_choice_def by blast
  then show ?thesis
  proof cases
    case same
    with assms(1) have "x # xs = [] @ r # xs"
      "center_distance cur r < center_distance cur a"
      "\<forall>y\<in>set []. center_distance cur r < center_distance cur y"
      "\<forall>y\<in>set xs. center_distance cur r \<le> center_distance cur y"
      by simp_all
    then show ?thesis
      unfolding loop_choice_def by blast
  next
    case later
    with assms(1) have "x # xs = (x # pre) @ r # post"
      "center_distance cur r < center_distance cur a"
      "\<forall>y\<in>set (x # pre). center_distance cur r < center_distance cur y"
      by simp_all
    with later(4) show ?thesis
      unfolding loop_choice_def by blast
  qed
qed

lemma nearest_loop_from_target:
  "\<exists>r. nearest_loop cur xs (Finite (center_distance cur a), Some a)
          = (Finite (center_distance cur r), Some r)
     \<and> loop_choice cur a xs r"
proof (induction xs arbitrary: a)
  case Nil
  then show ?case
    by (simp add: loop_choice_Nil)
next
  case (Cons x xs)
  show ?case
  proof (cases "center_distance cur x < center_distance cur a")
    case True
    from Cons.IH [of x] obtain r where
      run: "nearest_loop cur xs (Finite (center_distance cur x), Some x)
          = (Finite (center_distance cur r), Some r)"
      and choice: "loop_choice cur x xs r"
      by blast
    have "nearest_loop cur (x # xs) (Finite (center_distance cur a), Some a)
          = (Finite (center_distance cur r), Some r)"
      using run True by simp
    with loop_choice_replace [OF True choice] show ?thesis
      by blast
  next
    case False
    from Cons.IH [of a] obtain r where
      run: "nearest_loop cur xs (Finite (center_distance cur a), Some a)
          = (Finite (center_distance cur r), Some r)"
      and choice: "loop_choice cur a xs r"
      by blast
    have "nearest_loop cur (x # xs) (Finite (center_distance cur a), Some a)
          = (Finite (center_distance cur r), Some r)"
      using run False by simp
    with loop_choice_keep [OF False choice] show ?thesis
      by blast
  qed
qed

lemma filter_eq_appendD:
  "filter P ys = pre @ r # post \<Longrightarrow>
     \<exists>us vs. ys = us @ r # vs \<and> filter P us = pre \<and> P r \<and> filter P vs = post"
proof (induction pre arbitrary: ys)
  case Nil
  then have "filter P ys = r # post"
    by simp
  from filter_eq_ConsD [OF this] obtain us vs where
    "ys = us @ r # vs" "\<forall>u\<in>set us. \<not> P u" "P r" "post = filter P vs"
    by blast
  then have "ys = us @ r # vs \<and> filter P us = [] \<and> P r \<and> filter P vs = post"
    by simp
  then show ?case
    by blast
next
  case (Cons p pre)
  then have "filter P ys = p # (pre @ r # post)"
    by simp
  from filter_eq_ConsD [OF this] obtain us vs where
    ys: "ys = us @ p # vs" "\<forall>u\<in>set us. \<not> P u" "P p"
    and rest: "pre @ r # post = filter P vs"
    by blast
  from Cons.IH [OF rest [symmetric]] obtain us' vs' where
    vs: "vs = us' @ r # vs'" "filter P us' = pre" "P r" "filter P vs' = post"
    by blast
  have "ys = (us @ p # us') @ r # vs' \<and> filter P (us @ p # us') = p # pre \<and> P r
      \<and> filter P vs' = post"
    using ys vs by simp
  then show ?case
    by blast
qed

lemma nearest_loop_first:
  assumes "xs \<noteq> []"
  shows "\<exists>pre r post. xs = pre @ r # post
     \<and> snd (nearest_loop cur xs (Infinity, None)) = Some r
     \<and> (\<forall>y\<in>set pre. center_distance cur r < center_distance cur y)
     \<and> (\<forall>y\<in>set post. center_distance cur r \<le> center_distance cur y)"
proof -
  from assms obtain a rest where xs: "xs = a # rest"
    by (cases xs) auto
  from nearest_loop_from_target [of cur rest a] obtain r where
    run: "nearest_loop cur rest (Finite (center_distance cur a), Some a)
          = (Finite (center_distance cur r), Some r)"
    and choice: "loop_choice cur a rest r"
    by blast
  have res: "snd (nearest_loop cur xs (Infinity, None)) = Some r"
    using run by (simp add: xs)
  from choice consider
      (same) "r = a" "\<forall>y\<in>set rest. center_distance cur a \<le> center_distance cur y"
    | (later) pre post where "rest = pre @ r # post"
        "center_distance cur r < center_distance cur a"
        "\<forall>y\<in>set pre. center_distance cur r < center_distance cur y"
        "\<forall>y\<in>set post. center_distance cur r \<le> center_distance cur y"
    unfolding loop_choice_def by blast
  then show ?thesis
  proof cases
    case same
    then have "xs = [] @ r # rest"
      "\<forall>y\<in>set []. center_distance cur r < center_distance cur y"
      "\<forall>y\<in>set rest. center_distance cur r \<le> center_distance cur y"
      using xs by simp_all
    with res show ?thesis
      by blast
  next
    case later
    then have "xs = (a # pre) @ r # post"
      "\<forall>y\<in>set (a # pre). center_distance cur r < center_distance cur y"
      using xs by simp_all
    with res later(4) show ?thesis
      by blast
  qed
qed

lemma nearest_loop_member:
  "snd (nearest_loop cur xs (b, t)) = t \<or> (\<exists>x\<in>set xs. snd (nearest_loop cur xs (b, t)) = Some x)"
proof (induction xs arbitrary: b t)
  case Nil
  then show ?case by simp
next
  case (Cons x xs)
  show ?case
  proof (cases "less_bound (center_distance cur x) b")
    case True
    with Cons.IH [of "Finite (center_distance cur x)" "Some x"] show ?thesis
      by auto
  next
    case False
    with Cons.IH [of b t] show ?thesis
      by auto
  qed
qed

lemma select_first_nearest:
  assumes "detections \<noteq> []"
    and "\<exists>d\<in>set detections.
           \<not> point_in_box (fst (SCREEN_CENTER sel)) (snd (SCREEN_CENTER sel)) d"
  shows "\<exists>pre r post. detections = pre @ r # post
     \<and> fst (select sel detections cursor_pos) = Some r
     \<and> \<not> point_in_box (fst (SCREEN_CENTER sel)) (snd (SCREEN_CENTER sel)) r
     \<and> (\<forall>y\<in>set pre. \<not> point_in_box (fst (SCREEN_CENTER sel)) (snd (SCREEN_CENTER sel)) y
           \<longrightarrow> center_distance cursor_pos r < center_distance cursor_pos y)
     \<and> (\<forall>y\<in>set post. \<not> point_in_box (fst (SCREEN_CENTER sel)) (snd (SCREEN_CENTER sel)) y
           \<longrightarrow> center_distance cursor_pos r \<le> center_distance cursor_pos y)"
proof -
  let ?keep = "\<lambda>det. \<not> point_in_box (fst (SCREEN_CENTER sel)) (snd (SCREEN_CENTER sel)) det"
  have ne: "filter ?keep detections \<noteq> []"
    using assms(2) by (simp add: filter_empty_conv)
  have sel: "fst (select sel detections cursor_pos)
      = snd (nearest_loop cursor_pos (filter ?keep detections) (Infinity, None))"
    using assms(1) ne by (simp add: select_def Let_def)
  from nearest_loop_first [OF ne, of cursor_pos] obtain fpre r fpost where
    split: "filter ?keep detections = fpre @ r # fpost"
    and res: "snd (nearest_loop cursor_pos (filter ?keep detections) (Infinity, None)) = Some r"
    and before: "\<forall>y\<in>set fpre. center_distance cursor_pos r < center_distance cursor_pos y"
    and after: "\<forall>y\<in>set fpost. center_distance cursor_pos r \<le> center_distance cursor_pos y"
    by blast
  from filter_eq_appendD [OF split] obtain pre post where
    dets: "detections = pre @ r # post" and fpre: "filter ?keep pre = fpre"
    and keep: "?keep r" and fpost: "filter ?keep post = fpost"
    by blast
  have b: "\<forall>y\<in>set pre. ?keep y \<longrightarrow> center_distance cursor_pos r < center_distance cursor_pos y"
    using before fpre by auto
  have a: "\<forall>y\<in>set post. ?keep y \<longrightarrow> center_distance cursor_pos r \<le> center_distance cursor_pos y"
    using after fpost by auto
  have r: "fst (select sel detections cursor_pos) = Some r"
    using sel res by simp
  show ?thesis
    using dets r keep b a by (intro exI [of _ pre] exI [of _ r] exI [of _ post] conjI)
qed

lemmas select_unfold =
  select_def Let_def TargetSelector_init_def Detection_init_def point_in_box_def
  center_distance_def center_x_def center_y_def

subsection \<open>The claims about the selector\<close>

text \<open>
  C1. When the list of detections is not empty and at least one box survives the
  exclusion (does not contain the anchor, edges included), \<open>select\<close> with the cursor
  at \<open>(cx, cy)\<close> returns a surviving box \<open>r\<close> standing at some position of the input.
  With the distance of a box \<open>b\<close> being
  \<open>sqrt (((x1 b + x2 b) / 2 - cx)\<^sup>2 + ((y1 b + y2 b) / 2 - cy)\<^sup>2)\<close>, every surviving box
  before \<open>r\<close> is strictly farther and every surviving box after it is at least as far.
  So \<open>r\<close> is at minimum distance among the survivors, and among the boxes at that
  minimum it is the first in the order of the input.
\<close>

theorem select_nearest:
  assumes "detections \<noteq> []"
    and "\<exists>d\<in>set detections.
           \<not> (x1 d \<le> fst (SCREEN_CENTER sel) \<and> fst (SCREEN_CENTER sel) \<le> x2 d
              \<and> y1 d \<le> snd (SCREEN_CENTER sel) \<and> snd (SCREEN_CENTER sel) \<le> y2 d)"
  shows "\<exists>pre r post. detections = pre @ r # post
     \<and> fst (select sel detections (cx, cy)) = Some r
     \<and> current_target (snd (select sel detections (cx, cy))) = Some r
     \<and> \<not> (x1 r \<le> fst (SCREEN_CENTER sel) \<and> fst (SCREEN_CENTER sel) \<le> x2 r
          \<and> y1 r \<le> snd (SCREEN_CENTER sel) \<and> snd (SCREEN_CENTER sel) \<le> y2 r)
     \<and> (\<forall>y\<in>set pre.
           \<not> (x1 y \<le> fst (SCREEN_CENTER sel) \<and> fst (SCREEN_CENTER sel) \<le> x2 y
              \<and> y1 y \<le> snd (SCREEN_CENTER sel) \<and> snd (SCREEN_CENTER sel) \<le> y2 y)
           \<longrightarrow> sqrt (((x1 r + x2 r) / 2 - cx)\<^sup>2 + ((y1 r + y2 r) / 2 - cy)\<^sup>2)
               < sqrt (((x1 y + x2 y) / 2 - cx)\<^sup>2 + ((y1 y + y2 y) / 2 - cy)\<^sup>2))
     \<and> (\<forall>y\<in>set post.
           \<not> (x1 y \<le> fst (SCREEN_CENTER sel) \<and> fst (SCREEN_CENTER sel) \<le> x2 y
              \<and> y1 y \<le> snd (SCREEN_CENTER sel) \<and> snd (SCREEN_CENTER sel) \<le> y2 y)
           \<longrightarrow> sqrt (((x1 r + x2 r) / 2 - cx)\<^sup>2 + ((y1 r + y2 r) / 2 - cy)\<^sup>2)
               \<le> sqrt (((x1 y + x2 y) / 2 - cx)\<^sup>2 + ((y1 y + y2 y) / 2 - cy)\<^sup>2))"
proof -
  have surv: "\<exists>d\<in>set detections.
      \<not> point_in_box (fst (SCREEN_CENTER sel)) (snd (SCREEN_CENTER sel)) d"
    using assms(2) unfolding point_in_box_def .
  from select_first_nearest [OF assms(1) surv, of "(cx, cy)"] obtain pre r post where
    dets: "detections = pre @ r # post"
    and res: "fst (select sel detections (cx, cy)) = Some r"
    and keep: "\<not> point_in_box (fst (SCREEN_CENTER sel)) (snd (SCREEN_CENTER sel)) r"
    and before: "\<forall>y\<in>set pre.
        \<not> point_in_box (fst (SCREEN_CENTER sel)) (snd (SCREEN_CENTER sel)) y
        \<longrightarrow> center_distance (cx, cy) r < center_distance (cx, cy) y"
    and after: "\<forall>y\<in>set post.
        \<not> point_in_box (fst (SCREEN_CENTER sel)) (snd (SCREEN_CENTER sel)) y
        \<longrightarrow> center_distance (cx, cy) r \<le> center_distance (cx, cy) y"
    by blast
  have cur: "current_target (snd (select sel detections (cx, cy))) = Some r"
    using res by (simp add: select_def Let_def split: if_splits)
  note explicit = point_in_box_def center_distance_def center_x_def center_y_def fst_conv snd_conv
  show ?thesis
    using dets res cur keep [unfolded explicit] before [unfolded explicit]
      after [unfolded explicit]
    by (intro exI [of _ pre] exI [of _ r] exI [of _ post] conjI)
qed

text \<open>
  Cursor at \<open>(10, 20)\<close>; four boxes in this order: one around the screen centre, one at
  distance 500, two at distance 5. The third box of the input is returned: it is
  strictly nearer than the survivor before it and ties with the one after it.
\<close>

theorem select_nearest_witness:
  "[Detection_init 900 500 1000 600 0.9 0, Detection_init 300 410 320 430 0.9 0,
      Detection_init 12 23 14 25 0.8 0, Detection_init 13 22 15 24 0.7 0] \<noteq> []
   \<and> (\<exists>d\<in>set [Detection_init 900 500 1000 600 0.9 0, Detection_init 300 410 320 430 0.9 0,
      Detection_init 12 23 14 25 0.8 0, Detection_init 13 22 15 24 0.7 0].
        \<not> (x1 d \<le> fst (SCREEN_CENTER TargetSelector_init) \<and> fst (SCREEN_CENTER TargetSelector_init) \<le> x2 d
              \<and> y1 d \<le> snd (SCREEN_CENTER TargetSelector_init) \<and> snd (SCREEN_CENTER TargetSelector_init) \<le> y2 d))
   \<and> sqrt (((300 + 320) / 2 - 10)\<^sup>2 + ((410 + 430) / 2 - 20)\<^sup>2) = (500 :: real)
   \<and> sqrt (((12 + 14) / 2 - 10)\<^sup>2 + ((23 + 25) / 2 - 20)\<^sup>2) = (5 :: real)
   \<and> sqrt (((13 + 15) / 2 - 10)\<^sup>2 + ((22 + 24) / 2 - 20)\<^sup>2) = (5 :: real)
   \<and> fst (select TargetSelector_init [Detection_init 900 500 1000 600 0.9 0, Detection_init 300 410 320 430 0.9 0,
      Detection_init 12 23 14 25 0.8 0, Detection_init 13 22 15 24 0.7 0] (10, 20)) = Some (Detection_init 12 23 14 25 0.8 0)
   \<and> (\<exists>pre r post. [Detection_init 900 500 1000 600 0.9 0, Detection_init 300 410 320 430 0.9 0,
      Detection_init 12 23 14 25 0.8 0, Detection_init 13 22 15 24 0.7 0] = pre @ r # post
        \<and> fst (select TargetSelector_init [Detection_init 900 500 1000 600 0.9 0, Detection_init 300 410 320 430 0.9 0,
      Detection_init 12 23 14 25 0.8 0, Detection_init 13 22 15 24 0.7 0] (10, 20)) = Some r
        \<and> (\<forall>y\<in>set pre.
             \<not> (x1 y \<le> fst (SCREEN_CENTER TargetSelector_init) \<and> fst (SCREEN_CENTER TargetSelector_init) \<le> x2 y
              \<and> y1 y \<le> snd (SCREEN_CENTER TargetSelector_init) \<and> snd (SCREEN_CENTER TargetSelector_init) \<le> y2 y)
             \<longrightarrow> sqrt (((x1 r + x2 r) / 2 - 10)\<^sup>2 + ((y1 r + y2 r) / 2 - 20)\<^sup>2)
                 < sqrt (((x1 y + x2 y) / 2 - 10)\<^sup>2 + ((y1 y + y2 y) / 2 - 20)\<^sup>2))
        \<and> (\<forall>y\<in>set post.
             \<not> (x1 y \<le> fst (SCREEN_CENTER TargetSelector_init) \<and> fst (SCREEN_CENTER TargetSelector_init) \<le> x2 y
              \<and> y1 y \<le> snd (SCREEN_CENTER TargetSelector_init) \<and> snd (SCREEN_CENTER TargetSelector_init) \<le> y2 y)
             \<longrightarrow> sqrt (((x1 r + x2 r) / 2 - 10)\<^sup>2 + ((y1 r + y2 r) / 2 - 20)\<^sup>2)
                 \<le> sqrt (((x1 y + x2 y) / 2 - 10)\<^sup>2 + ((y1 y + y2 y) / 2 - 20)\<^sup>2)))"
proof -
  let ?dets = "[Detection_init 900 500 1000 600 0.9 0, Detection_init 300 410 320 430 0.9 0,
      Detection_init 12 23 14 25 0.8 0, Detection_init 13 22 15 24 0.7 0]"
  have ne: "?dets \<noteq> []"
    by simp
  have surv: "\<exists>d\<in>set ?dets.
        \<not> (x1 d \<le> fst (SCREEN_CENTER TargetSelector_init) \<and> fst (SCREEN_CENTER TargetSelector_init) \<le> x2 d
              \<and> y1 d \<le> snd (SCREEN_CENTER TargetSelector_init) \<and> snd (SCREEN_CENTER TargetSelector_init) \<le> y2 d)"
    by (simp add: TargetSelector_init_def Detection_init_def)
  have far: "sqrt (((300 + 320) / 2 - 10)\<^sup>2 + ((410 + 430) / 2 - 20)\<^sup>2) = (500 :: real)"
    by (rule real_sqrt_unique) simp_all
  have near: "sqrt (((12 + 14) / 2 - 10)\<^sup>2 + ((23 + 25) / 2 - 20)\<^sup>2) = (5 :: real)"
    "sqrt (((13 + 15) / 2 - 10)\<^sup>2 + ((22 + 24) / 2 - 20)\<^sup>2) = (5 :: real)"
    by (rule real_sqrt_unique, simp_all)+
  have run: "fst (select TargetSelector_init ?dets (10, 20))
      = Some (Detection_init 12 23 14 25 0.8 0)"
    using far near by (simp add: select_unfold)
  from select_nearest [OF ne surv, of 10 20] obtain pre r post where
    "?dets = pre @ r # post"
    "fst (select TargetSelector_init ?dets (10, 20)) = Some r"
    "\<forall>y\<in>set pre.
             \<not> (x1 y \<le> fst (SCREEN_CENTER TargetSelector_init) \<and> fst (SCREEN_CENTER TargetSelector_init) \<le> x2 y
              \<and> y1 y \<le> snd (SCREEN_CENTER TargetSelector_init) \<and> snd (SCREEN_CENTER TargetSelector_init) \<le> y2 y)
             \<longrightarrow> sqrt (((x1 r + x2 r) / 2 - 10)\<^sup>2 + ((y1 r + y2 r) / 2 - 20)\<^sup>2)
                 < sqrt (((x1 y + x2 y) / 2 - 10)\<^sup>2 + ((y1 y + y2 y) / 2 - 20)\<^sup>2)"
    "\<forall>y\<in>set post.
             \<not> (x1 y \<le> fst (SCREEN_CENTER TargetSelector_init) \<and> fst (SCREEN_CENTER TargetSelector_init) \<le> x2 y
              \<and> y1 y \<le> snd (SCREEN_CENTER TargetSelector_init) \<and> snd (SCREEN_CENTER TargetSelector_init) \<le> y2 y)
             \<longrightarrow> sqrt (((x1 r + x2 r) / 2 - 10)\<^sup>2 + ((y1 r + y2 r) / 2 - 20)\<^sup>2)
                 \<le> sqrt (((x1 y + x2 y) / 2 - 10)\<^sup>2 + ((y1 y + y2 y) / 2 - 20)\<^sup>2)"
    by blast
  then have "\<exists>pre r post. ?dets = pre @ r # post
        \<and> fst (select TargetSelector_init ?dets (10, 20)) = Some r
        \<and> (\<forall>y\<in>set pre.
             \<not> (x1 y \<le> fst (SCREEN_CENTER TargetSelector_init) \<and> fst (SCREEN_CENTER TargetSelector_init) \<le> x2 y
              \<and> y1 y \<le> snd (SCREEN_CENTER TargetSelector_init) \<and> snd (SCREEN_CENTER TargetSelector_init) \<le> y2 y)
             \<longrightarrow> sqrt (((x1 r + x2 r) / 2 - 10)\<^sup>2 + ((y1 r + y2 r) / 2 - 20)\<^sup>2)
                 < sqrt (((x1 y + x2 y) / 2 - 10)\<^sup>2 + ((y1 y + y2 y) / 2 - 20)\<^sup>2))
        \<and> (\<forall>y\<in>set post.
             \<not> (x1 y \<le> fst (SCREEN_CENTER TargetSelector_init) \<and> fst (SCREEN_CENTER TargetSelector_init) \<le> x2 y
              \<and> y1 y \<le> snd (SCREEN_CENTER TargetSelector_init) \<and> snd (SCREEN_CENTER TargetSelector_init) \<le> y2 y)
             \<longrightarrow> sqrt (((x1 r + x2 r) / 2 - 10)\<^sup>2 + ((y1 r + y2 r) / 2 - 20)\<^sup>2)
                 \<le> sqrt (((x1 y + x2 y) / 2 - 10)\<^sup>2 + ((y1 y + y2 y) / 2 - 20)\<^sup>2))"
    by blast
  with ne surv far near run show ?thesis
    by (intro conjI)
qed

text \<open>
  C2. Whatever the detections, the cursor and the anchor \<open>SCREEN_CENTER\<close> of the
  selector, a box that \<open>select\<close> returns does not contain the anchor, the four edges
  of the box counting as inside. \<open>select\<close> leaves the anchor as it is, and a
  constructed selector has the anchor \<open>(960, 540)\<close>.
\<close>

theorem select_excludes_anchor:
  assumes "fst (select sel detections cursor_pos) = Some d"
  shows "\<not> (x1 d \<le> fst (SCREEN_CENTER sel) \<and> fst (SCREEN_CENTER sel) \<le> x2 d
           \<and> y1 d \<le> snd (SCREEN_CENTER sel) \<and> snd (SCREEN_CENTER sel) \<le> y2 d)
    \<and> SCREEN_CENTER (snd (select sel detections cursor_pos)) = SCREEN_CENTER sel
    \<and> SCREEN_CENTER TargetSelector_init = (960, 540)"
proof -
  let ?keep = "\<lambda>det. \<not> point_in_box (fst (SCREEN_CENTER sel)) (snd (SCREEN_CENTER sel)) det"
  have "snd (nearest_loop cursor_pos (filter ?keep detections) (Infinity, None)) = Some d"
    using assms by (simp add: select_def Let_def split: if_splits)
  with nearest_loop_member [of cursor_pos "filter ?keep detections" Infinity None]
  have "d \<in> set (filter ?keep detections)"
    by auto
  then have "?keep d" by simp
  then show ?thesis
    by (simp add: point_in_box_def select_def Let_def TargetSelector_init_def)
qed

text \<open>
  A box with the anchor exactly on its corner is excluded; the other box is returned.
\<close>

theorem select_excludes_anchor_witness:
  "point_in_box 960 540 (Detection_init 960 540 1000 600 0.9 0)
   \<and> fst (select TargetSelector_init
        [Detection_init 960 540 1000 600 0.9 0, Detection_init 2 3 4 5 0.8 0] (0, 0))
       = Some (Detection_init 2 3 4 5 0.8 0)
   \<and> \<not> (x1 (Detection_init 2 3 4 5 0.8 0) \<le> fst (SCREEN_CENTER TargetSelector_init)
         \<and> fst (SCREEN_CENTER TargetSelector_init) \<le> x2 (Detection_init 2 3 4 5 0.8 0)
         \<and> y1 (Detection_init 2 3 4 5 0.8 0) \<le> snd (SCREEN_CENTER TargetSelector_init)
         \<and> snd (SCREEN_CENTER TargetSelector_init) \<le> y2 (Detection_init 2 3 4 5 0.8 0))"
proof -
  have run: "fst (select TargetSelector_init
        [Detection_init 960 540 1000 600 0.9 0, Detection_init 2 3 4 5 0.8 0] (0, 0))
       = Some (Detection_init 2 3 4 5 0.8 0)"
    by (simp add: select_unfold)
  have edge: "point_in_box 960 540 (Detection_init 960 540 1000 600 0.9 0)"
    by (simp add: point_in_box_def Detection_init_def)
  show ?thesis
    using edge run select_excludes_anchor [OF run]
    by (simp add: TargetSelector_init_def Detection_init_def)
qed

text \<open>
  C6. For any cursor, \<open>select\<close> on the empty list returns no target, and so does
  \<open>select\<close> on a list all of whose boxes contain the anchor; both leave the candidate
  list empty and the current target cleared, whatever they held before.
\<close>

theorem select_no_target:
  "select sel [] cursor_pos = (None, sel\<lparr>candidates := [], current_target := None\<rparr>)
   \<and> ((\<forall>d\<in>set detections.
          point_in_box (fst (SCREEN_CENTER sel)) (snd (SCREEN_CENTER sel)) d) \<longrightarrow>
        select sel detections cursor_pos = (None, sel\<lparr>candidates := [], current_target := None\<rparr>)
        \<and> get_candidates (snd (select sel detections cursor_pos)) = []
        \<and> get_current_target (snd (select sel detections cursor_pos)) = None)"
  by (simp add: select_def Let_def filter_empty_conv get_candidates_def get_current_target_def)


text \<open>
  A selector holding a candidate and a target, given two boxes that both contain the
  anchor: no target, and the selector is as freshly constructed.
\<close>

theorem select_no_target_witness:
  "point_in_box (fst (SCREEN_CENTER TargetSelector_init))
      (snd (SCREEN_CENTER TargetSelector_init)) (Detection_init 960 540 1000 600 0.9 0)
   \<and> point_in_box (fst (SCREEN_CENTER TargetSelector_init))
      (snd (SCREEN_CENTER TargetSelector_init)) (Detection_init 900 500 1000 600 0.9 0)
   \<and> select (TargetSelector_init\<lparr>candidates := [Detection_init 2 3 4 5 0.8 0],
                current_target := Some (Detection_init 2 3 4 5 0.8 0)\<rparr>)
        [Detection_init 960 540 1000 600 0.9 0, Detection_init 900 500 1000 600 0.9 0] (0, 0)
       = (None, TargetSelector_init)"
proof -
  let ?sel = "TargetSelector_init\<lparr>candidates := [Detection_init 2 3 4 5 0.8 0],
                current_target := Some (Detection_init 2 3 4 5 0.8 0)\<rparr>"
  have inside: "point_in_box (fst (SCREEN_CENTER TargetSelector_init))
      (snd (SCREEN_CENTER TargetSelector_init)) (Detection_init 960 540 1000 600 0.9 0)"
    "point_in_box (fst (SCREEN_CENTER TargetSelector_init))
      (snd (SCREEN_CENTER TargetSelector_init)) (Detection_init 900 500 1000 600 0.9 0)"
    by (simp_all add: TargetSelector_init_def Detection_init_def point_in_box_def)
  have same: "SCREEN_CENTER ?sel = SCREEN_CENTER TargetSelector_init"
    by simp
  have all: "\<forall>d\<in>set [Detection_init 960 540 1000 600 0.9 0, Detection_init 900 500 1000 600 0.9 0].
      point_in_box (fst (SCREEN_CENTER ?sel)) (snd (SCREEN_CENTER ?sel)) d"
    unfolding same using inside by simp
  have "select ?sel
        [Detection_init 960 540 1000 600 0.9 0, Detection_init 900 500 1000 600 0.9 0] (0, 0)
       = (None, TargetSelector_init)"
    using all select_no_target [of ?sel "(0, 0)"
        "[Detection_init 960 540 1000 600 0.9 0, Detection_init 900 500 1000 600 0.9 0]"]
    by (simp add: TargetSelector_init_def)
  with inside show ?thesis
    by (intro conjI)
qed

section \<open>Properties of the coordinate mapping\<close>

text \<open>
  C9. For sizes whose widths and heights are all non-zero, \<open>map_to_screen\<close> returns a
  point, and \<open>map_to_model\<close> with the same sizes maps that point back to exactly
  \<open>(x, y)\<close> (in exact arithmetic).
\<close>

theorem map_round_trip:
  assumes "fst model_size \<noteq> 0" and "snd model_size \<noteq> 0"
    and "fst screen_size \<noteq> 0" and "snd screen_size \<noteq> 0"
  shows "\<exists>sx sy. map_to_screen x y model_size screen_size = Inr (sx, sy)
     \<and> map_to_model sx sy screen_size model_size = Inr (x, y)"
  using assms by (simp add: map_to_screen_def map_to_model_def scale_coordinates_def Let_def)

text \<open>
  With the default sizes, \<open>(320, 180)\<close> goes to \<open>(960, 540)\<close> and back.
\<close>

theorem map_round_trip_witness:
  "fst default_model_size \<noteq> 0 \<and> snd default_model_size \<noteq> 0
   \<and> fst default_screen_size \<noteq> 0 \<and> snd default_screen_size \<noteq> 0
   \<and> map_to_screen 320 180 default_model_size default_screen_size = Inr (960, 540)
   \<and> map_to_model 960 540 default_screen_size default_model_size = Inr (320, 180)
   \<and> (\<exists>sx sy. map_to_screen 320 180 default_model_size default_screen_size = Inr (sx, sy)
        \<and> map_to_model sx sy default_screen_size default_model_size = Inr (320, 180))"
proof -
  have m: "fst default_model_size \<noteq> 0" "snd default_model_size \<noteq> 0"
    by (simp_all add: default_model_size_def)
  have s: "fst default_screen_size \<noteq> 0" "snd default_screen_size \<noteq> 0"
    by (simp_all add: default_screen_size_def)
  have there: "map_to_screen 320 180 default_model_size default_screen_size = Inr (960, 540)"
    by (simp add: map_to_screen_def scale_coordinates_def default_model_size_def
        default_screen_size_def)
  have return: "map_to_model 960 540 default_screen_size default_model_size = Inr (320, 180)"
    by (simp add: map_to_model_def scale_coordinates_def default_model_size_def
        default_screen_size_def)
  show ?thesis
    using m s there return map_round_trip [OF m s, of 320 180]
    by (intro conjI)
qed

end
